theory Spec2Isabelle
  imports Main
begin

section \<open>The channel core of \<^verbatim>\<open>include/channel.hpp\<close>\<close>

text \<open>
  The header defines one class of shared state, \<^verbatim>\<open>_channel<T>\<close>, and two handle classes,
  \<^verbatim>\<open>channel<T>\<close> and \<^verbatim>\<open>send_channel<T>\<close>, each holding a \<^verbatim>\<open>std::shared_ptr\<close> to a
  \<^verbatim>\<open>_channel<T>\<close>. An identifier cannot start with an underscore here, so the methods of
  \<^verbatim>\<open>_channel\<close> carry the prefix \<open>core_\<close>, those of \<^verbatim>\<open>channel\<close> the prefix
  \<open>channel_\<close> and those of \<^verbatim>\<open>send_channel\<close> the prefix \<open>send_channel_\<close>.
\<close>

subsection \<open>Exit statuses\<close>

definition SEND_CLOSED_ERR :: int where
  "SEND_CLOSED_ERR = 2"

definition RECV_CLOSED_ERR :: int where
  "RECV_CLOSED_ERR = 3"

definition CLOSE_CLOSED_ERR :: int where
  "CLOSE_CLOSED_ERR = 4"

subsection \<open>State and outcomes\<close>

text \<open>
  The fields of \<^verbatim>\<open>_channel<T>\<close> that carry data: \<^verbatim>\<open>cap\<close> (a \<^verbatim>\<open>size_t\<close>, only ever
  compared with 0 and with \<^verbatim>\<open>q.size()\<close>, hence a natural number), the queue \<^verbatim>\<open>q\<close> (front of
  the queue = head of the list) and the flag \<^verbatim>\<open>_closed\<close>. The mutex and the two condition
  variables hold no data; what they do is described with the operations below.
\<close>

record 'a core =
  cap :: nat
  q :: "'a list"
  closed_flag :: bool

datatype exn = bad_optional_access

text \<open>
  What a call does: it returns a value and leaves a state; or it prints a message on the
  standard error stream and calls \<^verbatim>\<open>exit\<close> with a status; or it waits on a condition variable
  whose predicate is false (the state is as it was, and only another thread can let the
  call go on); or it throws, leaving a state; or it has no defined behaviour in C++.
\<close>

datatype ('r, 's) outcome =
    Returns 'r 's
  | Exits string int
  | Blocks
  | Throws exn 's
  | Undefined_Behaviour

fun and_then :: "('r, 's) outcome \<Rightarrow> ('r \<Rightarrow> 's \<Rightarrow> ('t, 's) outcome) \<Rightarrow> ('t, 's) outcome" where
  "and_then (Returns r s) k = k r s"
| "and_then (Exits msg code) k = Exits msg code"
| "and_then Blocks k = Blocks"
| "and_then (Throws x s) k = Throws x s"
| "and_then Undefined_Behaviour k = Undefined_Behaviour"

subsection \<open>The methods of \<^verbatim>\<open>_channel\<close>\<close>

text \<open>The constructor \<^verbatim>\<open>_channel(size_t cap)\<close>: an empty queue, not closed.\<close>

definition core_init :: "nat \<Rightarrow> 'a core" where
  "core_init n = \<lparr>cap = n, q = [], closed_flag = False\<rparr>"

definition check_closed :: "'a core \<Rightarrow> string \<Rightarrow> int \<Rightarrow> (unit, 'a core) outcome" where
  "check_closed c msg exit_code =
     (if closed_flag c then Exits msg exit_code else Returns () c)"

text \<open>\<^verbatim>\<open>flush\<close>: the loop \<^verbatim>\<open>while (!q.empty()) q.pop();\<close>.\<close>

fun flush_loop :: "'a list \<Rightarrow> 'a list" where
  "flush_loop [] = []"
| "flush_loop (x # xs) = flush_loop xs"

definition core_flush :: "'a core \<Rightarrow> (unit, 'a core) outcome" where
  "core_flush c = Returns () (c\<lparr>q := flush_loop (q c)\<rparr>)"

definition core_closed :: "'a core \<Rightarrow> (bool, 'a core) outcome" where
  "core_closed c = Returns (closed_flag c) c"

text \<open>\<^verbatim>\<open>close\<close>: the check, then the flag is set and the queue swapped with an empty one.\<close>

definition core_close :: "'a core \<Rightarrow> (unit, 'a core) outcome" where
  "core_close c =
     and_then (check_closed c ''Attempt to close a closed channel'' CLOSE_CLOSED_ERR)
       (\<lambda>_ c. Returns () (c\<lparr>closed_flag := True, q := []\<rparr>))"

text \<open>
  \<^verbatim>\<open>send\<close>. The predicate of \<^verbatim>\<open>_full.wait\<close> is \<open>send_ready\<close>. \<open>core_send_resume\<close> is the
  method from the wait on (lines 102 to 108), run on the state the thread sees when it holds
  the lock and evaluates the predicate: at the call, or at a later wake-up. With a false
  predicate the thread waits (again).
\<close>

definition send_ready :: "'a core \<Rightarrow> bool" where
  "send_ready c = (closed_flag c \<or> (cap c = 0 \<or> length (q c) < cap c))"

definition core_send_resume :: "'a core \<Rightarrow> 'a \<Rightarrow> (bool, 'a core) outcome" where
  "core_send_resume c t =
     (if \<not> send_ready c then Blocks
      else if closed_flag c then Returns False c
      else Returns True (c\<lparr>q := q c @ [t]\<rparr>))"

definition core_send :: "'a core \<Rightarrow> 'a \<Rightarrow> (bool, 'a core) outcome" where
  "core_send c t = (if closed_flag c then Returns False c else core_send_resume c t)"

text \<open>\<^verbatim>\<open>recv_immed\<close>: an empty optional on an empty queue, else the front item, popped.\<close>

definition core_recv_immed :: "'a core \<Rightarrow> ('a option, 'a core) outcome" where
  "core_recv_immed c =
     (case q c of
        [] \<Rightarrow> Returns None c
      | t # rest \<Rightarrow> Returns (Some t) (c\<lparr>q := rest\<rparr>))"

text \<open>
  \<^verbatim>\<open>recv\<close>. The predicate of \<^verbatim>\<open>_empty.wait\<close> is \<open>recv_ready\<close>; \<open>core_recv_resume\<close> is the
  method from the wait on (lines 149 to 154). \<^verbatim>\<open>q.front()\<close> of an empty queue is undefined in
  C++; the branch is there to keep the model total and is never taken (\<open>recv_defined\<close>
  below).
\<close>

definition recv_ready :: "'a core \<Rightarrow> bool" where
  "recv_ready c = (closed_flag c \<or> q c \<noteq> [])"

definition core_recv_resume :: "'a core \<Rightarrow> ('a, 'a core) outcome" where
  "core_recv_resume c =
     (if \<not> recv_ready c then Blocks
      else and_then (check_closed c ''Attempt to receive on a closed channel'' RECV_CLOSED_ERR)
        (\<lambda>_ c. case q c of
            [] \<Rightarrow> Undefined_Behaviour
          | t # rest \<Rightarrow> Returns t (c\<lparr>q := rest\<rparr>)))"

definition core_recv :: "'a core \<Rightarrow> ('a, 'a core) outcome" where
  "core_recv c =
     and_then (check_closed c ''Attempt to receive on a closed channel'' RECV_CLOSED_ERR)
       (\<lambda>_ c. core_recv_resume c)"

text \<open>The destructor \<^verbatim>\<open>~_channel\<close>.\<close>

definition core_dtor :: "'a core \<Rightarrow> (unit, 'a core) outcome" where
  "core_dtor c =
     and_then (core_closed c) (\<lambda>b c.
       and_then (if \<not> b then core_close c else Returns () c) (\<lambda>_ c. core_flush c))"

subsection \<open>The methods of the handles, on the core they point to\<close>

text \<open>
  A handle has no state but its pointer, so each of its methods is a function of the core.
  \<^verbatim>\<open>std::optional::value()\<close> throws \<^verbatim>\<open>std::bad_optional_access\<close> on an empty optional.

  \<^verbatim>\<open>close\<close> of a handle calls \<^verbatim>\<open>closed()\<close>, \<^verbatim>\<open>ch->close()\<close> and \<^verbatim>\<open>ch->flush()\<close>, each of which
  takes and releases the mutex on its own. \<open>channel_close\<close> and \<open>send_channel_close\<close> are the
  call with no other thread running between these parts; with other threads between them,
  the parts are the steps \<open>Closed\<close>, \<open>Close\<close> and \<open>Flush\<close> of a history (below).
\<close>

definition optional_value :: "'a option \<Rightarrow> 's \<Rightarrow> ('a, 's) outcome" where
  "optional_value v s = (case v of None \<Rightarrow> Throws bad_optional_access s | Some t \<Rightarrow> Returns t s)"

definition channel_send :: "'a core \<Rightarrow> 'a \<Rightarrow> (bool, 'a core) outcome" where
  "channel_send c t = core_send c t"

definition channel_recv_immed :: "'a core \<Rightarrow> ('a option, 'a core) outcome" where
  "channel_recv_immed c =
     and_then (core_recv_immed c) (\<lambda>v c.
       and_then (optional_value v c) (\<lambda>t c. Returns (Some t) c))"

definition channel_recv :: "'a core \<Rightarrow> ('a, 'a core) outcome" where
  "channel_recv c = core_recv c"

definition channel_closed :: "'a core \<Rightarrow> (bool, 'a core) outcome" where
  "channel_closed c = core_closed c"

definition channel_close :: "'a core \<Rightarrow> (unit, 'a core) outcome" where
  "channel_close c =
     and_then (channel_closed c) (\<lambda>b c.
       and_then (if \<not> b then core_close c else Returns () c) (\<lambda>_ c. core_flush c))"

text \<open>
  The body of \<^verbatim>\<open>~channel\<close>, \<^verbatim>\<open>if (!closed()) { ch->close(); }\<close>; the pointer is released after
  it (see the store below). \<^verbatim>\<open>closed()\<close> releases the mutex when it returns and
  \<^verbatim>\<open>ch->close()\<close> takes it again, so other owners of the core can run between the two. The
  body therefore has two states to act on: \<open>c\<close>, the core while \<^verbatim>\<open>closed()\<close> holds the mutex,
  and \<open>c1\<close>, the core as the other threads have left it when the destructor goes on (\<open>c1 = c\<close>
  when no other thread ran). The flag that decides is the one read in \<open>c\<close>; \<^verbatim>\<open>close\<close> checks
  the flag of \<open>c1\<close> and exits when it finds it set.
\<close>

definition channel_dtor_body :: "'a core \<Rightarrow> 'a core \<Rightarrow> (unit, 'a core) outcome" where
  "channel_dtor_body c c1 =
     and_then (channel_closed c) (\<lambda>b _. if \<not> b then core_close c1 else Returns () c1)"

definition send_channel_send :: "'a core \<Rightarrow> 'a \<Rightarrow> (bool, 'a core) outcome" where
  "send_channel_send c t = core_send c t"

definition send_channel_closed :: "'a core \<Rightarrow> (bool, 'a core) outcome" where
  "send_channel_closed c = core_closed c"

definition send_channel_close :: "'a core \<Rightarrow> (unit, 'a core) outcome" where
  "send_channel_close c =
     and_then (send_channel_closed c) (\<lambda>b c.
       and_then (if \<not> b then core_close c else Returns () c) (\<lambda>_ c. core_flush c))"

text \<open>The body of \<^verbatim>\<open>~send_channel\<close>, with the same two states.\<close>

definition send_channel_dtor_body :: "'a core \<Rightarrow> 'a core \<Rightarrow> (unit, 'a core) outcome" where
  "send_channel_dtor_body c c1 =
     and_then (send_channel_closed c) (\<lambda>b _. if \<not> b then core_close c1 else Returns () c1)"

subsection \<open>Handles sharing a core: the store\<close>

text \<open>
  \<^verbatim>\<open>std::make_shared\<close> allocates a core together with its count of owners; a handle is the
  address. Copying the pointer (the constructor \<^verbatim>\<open>send_channel(const channel<U> &c) : ch(c.ch)\<close>,
  and the copy constructor the compiler generates for each handle class) adds an owner.
  Releasing it (the end of each handle's destructor) removes one, and the last owner runs
  \<^verbatim>\<open>~_channel\<close> and frees the core. A method called through an address that holds no core
  has no defined behaviour; no handle made by the constructors below is in that case.
\<close>

record 'a control_block =
  obj :: "'a core"
  use_count :: nat

record 'a store =
  cells :: "nat \<Rightarrow> 'a control_block option"
  next_addr :: nat

definition empty_store :: "'a store" where
  "empty_store = \<lparr>cells = (\<lambda>_. None), next_addr = 0\<rparr>"

definition make_shared :: "'a store \<Rightarrow> nat \<Rightarrow> (nat, 'a store) outcome" where
  "make_shared s n =
     Returns (next_addr s)
       (s\<lparr>cells := (cells s)(next_addr s := Some \<lparr>obj = core_init n, use_count = 1\<rparr>),
          next_addr := Suc (next_addr s)\<rparr>)"

definition shared_ptr_copy :: "'a store \<Rightarrow> nat \<Rightarrow> (nat, 'a store) outcome" where
  "shared_ptr_copy s h =
     (case cells s h of
        None \<Rightarrow> Undefined_Behaviour
      | Some cb \<Rightarrow>
          Returns h (s\<lparr>cells := (cells s)(h := Some (cb\<lparr>use_count := Suc (use_count cb)\<rparr>))\<rparr>))"

definition on_core ::
  "('a core \<Rightarrow> ('r, 'a core) outcome) \<Rightarrow> 'a store \<Rightarrow> nat \<Rightarrow> ('r, 'a store) outcome" where
  "on_core f s h =
     (case cells s h of
        None \<Rightarrow> Undefined_Behaviour
      | Some cb \<Rightarrow>
          (case f (obj cb) of
             Returns r c \<Rightarrow> Returns r (s\<lparr>cells := (cells s)(h := Some (cb\<lparr>obj := c\<rparr>))\<rparr>)
           | Exits msg code \<Rightarrow> Exits msg code
           | Blocks \<Rightarrow> Blocks
           | Throws x c \<Rightarrow> Throws x (s\<lparr>cells := (cells s)(h := Some (cb\<lparr>obj := c\<rparr>))\<rparr>)
           | Undefined_Behaviour \<Rightarrow> Undefined_Behaviour))"

definition shared_ptr_release :: "'a store \<Rightarrow> nat \<Rightarrow> (unit, 'a store) outcome" where
  "shared_ptr_release s h =
     (case cells s h of
        None \<Rightarrow> Undefined_Behaviour
      | Some cb \<Rightarrow>
          if use_count cb \<le> 1
          then and_then (on_core core_dtor s h)
                 (\<lambda>_ s. Returns () (s\<lparr>cells := (cells s)(h := None)\<rparr>))
          else Returns () (s\<lparr>cells := (cells s)(h := Some (cb\<lparr>use_count := use_count cb - 1\<rparr>))\<rparr>))"

text \<open>\<^verbatim>\<open>channel(size_t cap)\<close> and \<^verbatim>\<open>send_channel(size_t cap)\<close>.\<close>

definition channel_ctor :: "'a store \<Rightarrow> nat \<Rightarrow> (nat, 'a store) outcome" where
  "channel_ctor s n = make_shared s n"

definition send_channel_ctor :: "'a store \<Rightarrow> nat \<Rightarrow> (nat, 'a store) outcome" where
  "send_channel_ctor s n = make_shared s n"

text \<open>\<^verbatim>\<open>send_channel(const channel<U> &c)\<close>: the new handle shares the core of \<^verbatim>\<open>c\<close>.\<close>

definition send_channel_from_channel :: "'a store \<Rightarrow> nat \<Rightarrow> (nat, 'a store) outcome" where
  "send_channel_from_channel s h = shared_ptr_copy s h"

text \<open>
  \<^verbatim>\<open>~channel\<close> and \<^verbatim>\<open>~send_channel\<close>: the body, then the member \<^verbatim>\<open>ch\<close> is released. As for
  the body, \<open>s\<close> is the store while \<^verbatim>\<open>closed()\<close> holds the mutex of the core, and \<open>s1\<close> the
  store as the other threads have left it when the destructor goes on; the destructor of a
  thread that runs alone is \<open>channel_dtor s s h\<close>. The last owner is alone with the core,
  so \<open>core_dtor\<close> needs one state only.
\<close>

definition channel_dtor :: "'a store \<Rightarrow> 'a store \<Rightarrow> nat \<Rightarrow> (unit, 'a store) outcome" where
  "channel_dtor s s1 h =
     (case cells s h of
        None \<Rightarrow> Undefined_Behaviour
      | Some cb \<Rightarrow>
          and_then (on_core (channel_dtor_body (obj cb)) s1 h) (\<lambda>_ s. shared_ptr_release s h))"

definition send_channel_dtor :: "'a store \<Rightarrow> 'a store \<Rightarrow> nat \<Rightarrow> (unit, 'a store) outcome" where
  "send_channel_dtor s s1 h =
     (case cells s h of
        None \<Rightarrow> Undefined_Behaviour
      | Some cb \<Rightarrow>
          and_then (on_core (send_channel_dtor_body (obj cb)) s1 h)
            (\<lambda>_ s. shared_ptr_release s h))"

subsection \<open>Histories of a core\<close>

text \<open>
  Every read and write of the queue and of the flag in a method happens while the method
  holds the mutex \<^verbatim>\<open>mu\<close> (the first \<^verbatim>\<open>check_closed\<close> of \<^verbatim>\<open>recv\<close> apart, which only
  reads), so a history of a core under any number of threads is a sequence of the steps
  below. A call that waits leaves the state as it is and goes on later as a \<open>Resume\<close> step;
  after an exit there is no state. The steps named after a handle's \<^verbatim>\<open>close\<close> or after a
  destructor are these calls made with no other thread between their parts.
\<close>

datatype 'a op =
    Send 'a
  | SendResume 'a
  | Recv
  | RecvResume
  | RecvImmed
  | Close
  | Flush
  | Closed
  | ChannelRecvImmed
  | ChannelClose
  | ChannelDtorBody
  | SendChannelClose
  | SendChannelDtorBody
  | CoreDtor

fun after :: "'s \<Rightarrow> ('r, 's) outcome \<Rightarrow> 's option" where
  "after s (Returns r s') = Some s'"
| "after s (Exits msg code) = None"
| "after s Blocks = Some s"
| "after s (Throws x s') = Some s'"
| "after s Undefined_Behaviour = None"

fun step :: "'a core \<Rightarrow> 'a op \<Rightarrow> 'a core option" where
  "step c (Send t) = after c (core_send c t)"
| "step c (SendResume t) = after c (core_send_resume c t)"
| "step c Recv = after c (core_recv c)"
| "step c RecvResume = after c (core_recv_resume c)"
| "step c RecvImmed = after c (core_recv_immed c)"
| "step c Close = after c (core_close c)"
| "step c Flush = after c (core_flush c)"
| "step c Closed = after c (core_closed c)"
| "step c ChannelRecvImmed = after c (channel_recv_immed c)"
| "step c ChannelClose = after c (channel_close c)"
| "step c ChannelDtorBody = after c (channel_dtor_body c c)"
| "step c SendChannelClose = after c (send_channel_close c)"
| "step c SendChannelDtorBody = after c (send_channel_dtor_body c c)"
| "step c CoreDtor = after c (core_dtor c)"

fun run :: "'a core \<Rightarrow> 'a op list \<Rightarrow> 'a core option" where
  "run c [] = Some c"
| "run c (x # xs) = (case step c x of None \<Rightarrow> None | Some c' \<Rightarrow> run c' xs)"

subsection \<open>One thread sending, then receiving\<close>

text \<open>
  \<open>send_all\<close> sends the items in order and gives the state left when every \<^verbatim>\<open>send\<close>
  returned true. \<open>recv_all\<close> makes one receive per element of its list, a blocking
  \<^verbatim>\<open>recv\<close> or a \<^verbatim>\<open>recv_immed\<close>, and gives what each returned; a receive that does not return
  (it waits, or exits) gives \<open>None\<close> for the whole.
\<close>

fun send_all :: "'a core \<Rightarrow> 'a list \<Rightarrow> 'a core option" where
  "send_all c [] = Some c"
| "send_all c (t # ts) =
     (case core_send c t of
        Returns ok c' \<Rightarrow> if ok then send_all c' ts else None
      | _ \<Rightarrow> None)"

datatype recv_kind = Blocking | Immediate

fun recv_one :: "recv_kind \<Rightarrow> 'a core \<Rightarrow> ('a option, 'a core) outcome" where
  "recv_one Blocking c = and_then (core_recv c) (\<lambda>t c. Returns (Some t) c)"
| "recv_one Immediate c = core_recv_immed c"

fun recv_all :: "'a core \<Rightarrow> recv_kind list \<Rightarrow> ('a option list \<times> 'a core) option" where
  "recv_all c [] = Some ([], c)"
| "recv_all c (k # ks) =
     (case recv_one k c of
        Returns v c' \<Rightarrow>
          (case recv_all c' ks of
             None \<Rightarrow> None
           | Some (vs, c'') \<Rightarrow> Some (v # vs, c''))
      | _ \<Rightarrow> None)"

subsection \<open>Reading a returned value\<close>

fun returned :: "('r, 's) outcome \<Rightarrow> 'r option" where
  "returned (Returns r s) = Some r"
| "returned (Exits msg code) = None"
| "returned Blocks = None"
| "returned (Throws x s) = None"
| "returned Undefined_Behaviour = None"

section \<open>Properties\<close>

subsection \<open>Unfolding the methods, and facts about single steps\<close>

lemmas core_defs =
  check_closed_def core_flush_def core_closed_def core_close_def send_ready_def
  core_send_resume_def core_send_def core_recv_immed_def recv_ready_def
  core_recv_resume_def core_recv_def core_dtor_def

lemmas handle_defs =
  optional_value_def channel_send_def channel_recv_immed_def channel_recv_def
  channel_closed_def channel_close_def channel_dtor_body_def send_channel_send_def
  send_channel_closed_def send_channel_close_def send_channel_dtor_body_def

lemma flush_loop_empty [simp]: "flush_loop xs = []"
  by (induction xs) simp_all

lemma recv_defined: "core_recv c \<noteq> Undefined_Behaviour \<and> core_recv_resume c \<noteq> Undefined_Behaviour"
  by (cases "q c") (simp_all add: core_defs)

lemma step_keeps_closed:
  assumes "step c x = Some c'" and "closed_flag c"
  shows "closed_flag c'"
  using assms by (cases x) (auto simp: core_defs handle_defs split: if_splits list.splits)

lemma step_keeps_cap:
  assumes "step c x = Some c'"
  shows "cap c' = cap c"
  using assms by (cases x) (auto simp: core_defs handle_defs split: if_splits list.splits)

lemma step_closed_empty:
  assumes "step c x = Some c'" and "closed_flag c \<longrightarrow> q c = []"
  shows "closed_flag c' \<longrightarrow> q c' = []"
  using assms by (cases x) (auto simp: core_defs handle_defs split: if_splits list.splits)

lemma step_bounded:
  assumes "step c x = Some c'" and "0 < cap c" and "length (q c) \<le> cap c"
  shows "length (q c') \<le> cap c'"
  using assms by (cases x) (auto simp: core_defs handle_defs split: if_splits list.splits)

subsection \<open>Facts about histories\<close>

lemma run_keeps_closed:
  "run c ops = Some c' \<Longrightarrow> closed_flag c \<Longrightarrow> closed_flag c'"
  by (induction ops arbitrary: c) (auto split: option.splits dest: step_keeps_closed)

lemma run_keeps_cap:
  "run c ops = Some c' \<Longrightarrow> cap c' = cap c"
  by (induction ops arbitrary: c) (auto split: option.splits dest: step_keeps_cap)

lemma run_closed_empty:
  "run c ops = Some c' \<Longrightarrow> closed_flag c \<longrightarrow> q c = [] \<Longrightarrow> closed_flag c' \<longrightarrow> q c' = []"
proof (induction ops arbitrary: c)
  case Nil
  then show ?case by simp
next
  case (Cons x xs)
  from Cons.prems(1) obtain c1 where s: "step c x = Some c1" and r: "run c1 xs = Some c'"
    by (auto split: option.splits)
  from step_closed_empty [OF s Cons.prems(2)] have "closed_flag c1 \<longrightarrow> q c1 = []" .
  with Cons.IH [OF r] show ?case by blast
qed

lemma run_bounded:
  "run c ops = Some c' \<Longrightarrow> 0 < cap c \<Longrightarrow> length (q c) \<le> cap c \<Longrightarrow> length (q c') \<le> cap c'"
proof (induction ops arbitrary: c)
  case Nil
  then show ?case by simp
next
  case (Cons x xs)
  from Cons.prems(1) obtain c1 where s: "step c x = Some c1" and r: "run c1 xs = Some c'"
    by (auto split: option.splits)
  have b: "length (q c1) \<le> cap c1"
    using step_bounded [OF s Cons.prems(2) Cons.prems(3)] .
  have "0 < cap c1"
    using step_keeps_cap [OF s] Cons.prems(2) by simp
  from Cons.IH [OF r this b] show ?case .
qed


subsection \<open>Sending and receiving in sequence\<close>

lemma send_all_result:
  "send_all c xs = Some c' \<Longrightarrow> c' = c\<lparr>q := q c @ xs\<rparr>"
proof (induction xs arbitrary: c)
  case Nil
  then show ?case by simp
next
  case (Cons t ts)
  from Cons.prems have o: "\<not> closed_flag c" and r: "send_ready c"
    and n: "send_all (c\<lparr>q := q c @ [t]\<rparr>) ts = Some c'"
    by (auto simp: core_send_def core_send_resume_def split: if_splits)
  from Cons.IH [OF n] show ?case by simp
qed

lemma send_all_fits:
  "\<not> closed_flag c \<Longrightarrow> cap c = 0 \<or> length (q c) + length xs \<le> cap c \<Longrightarrow>
   send_all c xs = Some (c\<lparr>q := q c @ xs\<rparr>)"
proof (induction xs arbitrary: c)
  case Nil
  then show ?case by simp
next
  case (Cons t ts)
  let ?c = "c\<lparr>q := q c @ [t]\<rparr>"
  from Cons.prems have s: "core_send c t = Returns True ?c"
    by (auto simp: core_send_def core_send_resume_def send_ready_def)
  have "send_all ?c ts = Some (?c\<lparr>q := q ?c @ ts\<rparr>)"
    using Cons.prems by (intro Cons.IH) auto
  with s show ?case by simp
qed

lemma recv_one_front:
  "\<not> closed_flag c \<Longrightarrow> q c = t # rest \<Longrightarrow> recv_one k c = Returns (Some t) (c\<lparr>q := rest\<rparr>)"
  by (cases k) (simp_all add: core_defs)

lemma recv_all_prefix:
  "\<not> closed_flag c \<Longrightarrow> length ks \<le> length (q c) \<Longrightarrow>
   recv_all c ks = Some (map Some (take (length ks) (q c)), c\<lparr>q := drop (length ks) (q c)\<rparr>)"
proof (induction ks arbitrary: c)
  case Nil
  then show ?case by simp
next
  case (Cons k ks)
  from Cons.prems(2) obtain t rest where qc: "q c = t # rest"
    by (cases "q c") auto
  let ?c = "c\<lparr>q := rest\<rparr>"
  have one: "recv_one k c = Returns (Some t) ?c"
    using Cons.prems(1) qc by (rule recv_one_front)
  have "recv_all ?c ks = Some (map Some (take (length ks) (q ?c)), ?c\<lparr>q := drop (length ks) (q ?c)\<rparr>)"
    using Cons.prems qc by (intro Cons.IH) auto
  with one qc show ?case by simp
qed

subsection \<open>C5: first in, first out\<close>

text \<open>
  Claim C5. On an open core with an empty queue, when \<open>n\<close> sends in a row each returned
  true, then \<open>n\<close> receives in a row, each a blocking \<^verbatim>\<open>recv\<close> or a \<^verbatim>\<open>recv_immed\<close> in any
  mix, all return, and they return the items in the order they were sent; the core is then
  as it was before the sends. The items need not be distinct.
\<close>

theorem fifo_order:
  assumes "\<not> closed_flag c" and "q c = []"
    and "send_all c xs = Some c'" and "length ks = length xs"
  shows "recv_all c' ks = Some (map Some xs, c)"
proof -
  have c': "c' = c\<lparr>q := xs\<rparr>"
    using send_all_result [OF assms(3)] assms(2) by simp
  have "recv_all c' ks = Some (map Some (take (length ks) (q c')), c'\<lparr>q := drop (length ks) (q c')\<rparr>)"
    using assms(1,4) c' by (intro recv_all_prefix) auto
  then show ?thesis
    using c' assms(2,4) by simp
qed

text \<open>Three sends into a core of capacity 3, then a mix of receives.\<close>

theorem fifo_order_witness:
  "send_all (core_init 3) [10, 20, 30 :: nat] = Some \<lparr>cap = 3, q = [10, 20, 30], closed_flag = False\<rparr>
   \<and> recv_all \<lparr>cap = 3, q = [10, 20, 30 :: nat], closed_flag = False\<rparr> [Blocking, Immediate, Blocking]
       = Some ([Some 10, Some 20, Some 30], core_init 3)"
proof -
  have s: "send_all (core_init 3) [10, 20, 30 :: nat] = Some \<lparr>cap = 3, q = [10, 20, 30], closed_flag = False\<rparr>"
    by (simp add: core_init_def core_send_def core_send_resume_def send_ready_def)
  have "recv_all \<lparr>cap = 3, q = [10, 20, 30 :: nat], closed_flag = False\<rparr> [Blocking, Immediate, Blocking]
       = Some (map Some [10, 20, 30], core_init 3)"
    by (rule fifo_order [OF _ _ s]) (simp_all add: core_init_def)
  with s show ?thesis by simp
qed

subsection \<open>C3: a second close exits\<close>

text \<open>
  Claim C3. After a call of \<^verbatim>\<open>close\<close> on a core has returned, a later call of \<^verbatim>\<open>close\<close> on
  the same core, right away or after any history of other steps, does not return: it prints
  its message and exits with status \<^verbatim>\<open>CLOSE_CLOSED_ERR\<close>.
\<close>

theorem double_close_exits:
  assumes "core_close c = Returns u c1" and "run c1 ops = Some c2"
  shows "core_close c2 = Exits ''Attempt to close a closed channel'' CLOSE_CLOSED_ERR"
proof -
  from assms(1) have "closed_flag c1"
    by (auto simp: core_close_def check_closed_def split: if_splits)
  with assms(2) have "closed_flag c2"
    by (rule run_keeps_closed)
  then show ?thesis
    by (simp add: core_close_def check_closed_def)
qed

text \<open>A fresh core closed once, used, and closed again: status 4.\<close>

theorem double_close_exits_witness:
  "core_close (core_init 2 :: nat core) = Returns () \<lparr>cap = 2, q = [], closed_flag = True\<rparr>
   \<and> core_close \<lparr>cap = 2, q = [] :: nat list, closed_flag = True\<rparr>
       = Exits ''Attempt to close a closed channel'' 4
   \<and> run \<lparr>cap = 2, q = [] :: nat list, closed_flag = True\<rparr> [Send 5, RecvImmed, Closed]
       = Some \<lparr>cap = 2, q = [], closed_flag = True\<rparr>"
proof -
  have a: "core_close (core_init 2 :: nat core) = Returns () \<lparr>cap = 2, q = [], closed_flag = True\<rparr>"
    by (simp add: core_init_def core_close_def check_closed_def)
  have b: "run \<lparr>cap = 2, q = [] :: nat list, closed_flag = True\<rparr> [Send 5, RecvImmed, Closed]
       = Some \<lparr>cap = 2, q = [], closed_flag = True\<rparr>"
    by (simp add: core_defs)
  from double_close_exits [OF a b] a b show ?thesis
    by (simp add: CLOSE_CLOSED_ERR_def)
qed


subsection \<open>C6: send on a closed core\<close>

text \<open>
  Claim C6. On a closed core \<^verbatim>\<open>send\<close> returns false and leaves the core as it is, whether
  the core is found closed at the call or at a wake-up from the wait, and through either
  handle class; it does not exit, throw or wait.
\<close>

theorem send_on_closed_rejected:
  assumes "closed_flag c"
  shows "core_send c t = Returns False c \<and> core_send_resume c t = Returns False c
    \<and> channel_send c t = Returns False c \<and> send_channel_send c t = Returns False c"
  using assms
  by (simp add: core_send_def core_send_resume_def send_ready_def channel_send_def
      send_channel_send_def)

text \<open>A core closed after one send rejects the next.\<close>

theorem send_on_closed_rejected_witness:
  "run (core_init 1) [Send (1::nat), Close] = Some \<lparr>cap = 1, q = [], closed_flag = True\<rparr>
   \<and> core_send \<lparr>cap = 1, q = [], closed_flag = True\<rparr> (7::nat)
       = Returns False \<lparr>cap = 1, q = [], closed_flag = True\<rparr>
   \<and> channel_send \<lparr>cap = 1, q = [], closed_flag = True\<rparr> (7::nat)
       = Returns False \<lparr>cap = 1, q = [], closed_flag = True\<rparr>"
proof -
  have "closed_flag \<lparr>cap = 1, q = [] :: nat list, closed_flag = True\<rparr>"
    by simp
  from send_on_closed_rejected [OF this, of 7] show ?thesis
    by (simp add: core_init_def core_defs)
qed

subsection \<open>C9: capacity 0 is unbounded\<close>

text \<open>
  Claim C9. On an open core of capacity 0, \<^verbatim>\<open>send\<close> returns true with the item appended,
  whatever the queue holds already, at the call and at a wake-up alike; so any number of
  sends in a row all succeed. (Running out of memory is outside the model.)
\<close>

theorem unbounded_send_succeeds:
  assumes "cap c = 0" and "\<not> closed_flag c"
  shows "core_send c t = Returns True (c\<lparr>q := q c @ [t]\<rparr>)
    \<and> core_send_resume c t = Returns True (c\<lparr>q := q c @ [t]\<rparr>)
    \<and> send_all c ts = Some (c\<lparr>q := q c @ ts\<rparr>)"
proof -
  have "send_all c ts = Some (c\<lparr>q := q c @ ts\<rparr>)"
    using assms by (intro send_all_fits) auto
  then show ?thesis
    using assms by (simp add: core_send_def core_send_resume_def send_ready_def)
qed

text \<open>A sixth item into an unbounded core holding five, and three sends into a fresh one.\<close>

theorem unbounded_send_succeeds_witness:
  "core_send \<lparr>cap = 0, q = [1, 2, 3, 4, 5 :: nat], closed_flag = False\<rparr> 6
     = Returns True \<lparr>cap = 0, q = [1, 2, 3, 4, 5, 6], closed_flag = False\<rparr>
   \<and> send_all (core_init 0) [1, 2, 3 :: nat] = Some \<lparr>cap = 0, q = [1, 2, 3], closed_flag = False\<rparr>"
  using unbounded_send_succeeds
    [of "\<lparr>cap = 0, q = [1, 2, 3, 4, 5 :: nat], closed_flag = False\<rparr>" 6 "[]"]
    unbounded_send_succeeds [of "core_init 0 :: nat core" 0 "[1, 2, 3]"]
  by (simp add: core_init_def)

subsection \<open>C7: blocking receive on a closed core\<close>

text \<open>
  Claim C7. On a closed core the blocking \<^verbatim>\<open>recv\<close> never returns a value: found closed at
  the call (\<open>core_recv\<close>, also through the handle) or at a wake-up from the wait
  (\<open>core_recv_resume\<close>), it exits with status \<^verbatim>\<open>RECV_CLOSED_ERR\<close>, which differs from the
  status \<^verbatim>\<open>CLOSE_CLOSED_ERR\<close> that \<^verbatim>\<open>close\<close> exits with on the same core.
\<close>

theorem recv_on_closed_exits:
  assumes "closed_flag c"
  shows "core_recv c = Exits ''Attempt to receive on a closed channel'' RECV_CLOSED_ERR
    \<and> core_recv_resume c = Exits ''Attempt to receive on a closed channel'' RECV_CLOSED_ERR
    \<and> channel_recv c = Exits ''Attempt to receive on a closed channel'' RECV_CLOSED_ERR
    \<and> core_close c = Exits ''Attempt to close a closed channel'' CLOSE_CLOSED_ERR
    \<and> RECV_CLOSED_ERR \<noteq> CLOSE_CLOSED_ERR"
  using assms
  by (simp add: core_recv_def core_recv_resume_def recv_ready_def check_closed_def
      channel_recv_def core_close_def RECV_CLOSED_ERR_def CLOSE_CLOSED_ERR_def)

text \<open>
  A core closed with three items buffered: \<^verbatim>\<open>recv\<close> exits with status 3. A receiver that
  waited on the fresh, empty core and wakes up on the closed one exits in the same way.
\<close>

theorem recv_on_closed_exits_witness:
  "run (core_init 0) [Send (1::nat), Send 2, Send 3, Close] = Some \<lparr>cap = 0, q = [], closed_flag = True\<rparr>
   \<and> core_recv \<lparr>cap = 0, q = [] :: nat list, closed_flag = True\<rparr>
       = Exits ''Attempt to receive on a closed channel'' 3
   \<and> core_recv (core_init 0 :: nat core) = Blocks
   \<and> core_recv_resume \<lparr>cap = 0, q = [] :: nat list, closed_flag = True\<rparr>
       = Exits ''Attempt to receive on a closed channel'' 3"
proof -
  have "closed_flag \<lparr>cap = 0, q = [] :: nat list, closed_flag = True\<rparr>"
    by simp
  from recv_on_closed_exits [OF this] show ?thesis
    by (simp add: core_init_def core_defs RECV_CLOSED_ERR_def)
qed

subsection \<open>C10: close through a handle on a closed core\<close>

text \<open>
  Claim C10. In every state a core can reach from its construction, if the core is closed
  then \<^verbatim>\<open>close\<close> called through a \<^verbatim>\<open>channel\<close> or a \<^verbatim>\<open>send_channel\<close> returns and leaves the
  core exactly as it is: the handle reads \<^verbatim>\<open>closed()\<close>, skips \<^verbatim>\<open>ch->close()\<close>, and its
  \<^verbatim>\<open>flush\<close> finds the queue empty.
\<close>

theorem handle_close_on_closed:
  assumes "run (core_init n) ops = Some c" and "closed_flag c"
  shows "channel_close c = Returns () c \<and> send_channel_close c = Returns () c"
proof -
  have "closed_flag c \<longrightarrow> q c = []"
    using assms(1) by (rule run_closed_empty) (simp add: core_init_def)
  with assms(2) have "c\<lparr>q := []\<rparr> = c"
    by simp
  with assms(2) show ?thesis
    by (simp add: channel_close_def send_channel_close_def channel_closed_def
        send_channel_closed_def core_closed_def core_flush_def)
qed

text \<open>Closing through the handle, twice.\<close>

theorem handle_close_on_closed_witness:
  "run (core_init 2) [Send (1::nat), ChannelClose] = Some \<lparr>cap = 2, q = [], closed_flag = True\<rparr>
   \<and> channel_close \<lparr>cap = 2, q = [] :: nat list, closed_flag = True\<rparr>
       = Returns () \<lparr>cap = 2, q = [], closed_flag = True\<rparr>
   \<and> send_channel_close \<lparr>cap = 2, q = [] :: nat list, closed_flag = True\<rparr>
       = Returns () \<lparr>cap = 2, q = [], closed_flag = True\<rparr>"
proof -
  have r: "run (core_init 2) [Send (1::nat), ChannelClose] = Some \<lparr>cap = 2, q = [], closed_flag = True\<rparr>"
    by (simp add: core_init_def core_defs handle_defs)
  from handle_close_on_closed [OF r] r show ?thesis
    by simp
qed

subsection \<open>C4: closed means empty, for good\<close>

text \<open>
  Claim C4. In every state a core can reach from its construction, if the flag is set then
  the queue is empty; and in every state reached from there by any further history, the
  flag is still set and the queue is still empty. The steps of a history cover every method
  of the core and of the handles, at the call and at a wake-up, and the core's destructor.
\<close>

theorem closed_stays_empty:
  assumes "run (core_init n) ops = Some c" and "closed_flag c" and "run c ops' = Some c'"
  shows "q c = [] \<and> closed_flag c' \<and> q c' = []"
proof -
  have i: "closed_flag c \<longrightarrow> q c = []"
    using assms(1) by (rule run_closed_empty) (simp add: core_init_def)
  have k: "closed_flag c'"
    using assms(3,2) by (rule run_keeps_closed)
  have "closed_flag c' \<longrightarrow> q c' = []"
    using assms(3) i by (rule run_closed_empty)
  with i k assms(2) show ?thesis
    by simp
qed

text \<open>A core closed with two items buffered, then put through sends, receives and closes.\<close>

theorem closed_stays_empty_witness:
  "run (core_init 3) [Send (1::nat), Send 2, Close] = Some \<lparr>cap = 3, q = [], closed_flag = True\<rparr>
   \<and> run \<lparr>cap = 3, q = [] :: nat list, closed_flag = True\<rparr>
        [Send 4, SendResume 5, RecvImmed, Flush, ChannelClose, ChannelRecvImmed, Closed]
       = Some \<lparr>cap = 3, q = [], closed_flag = True\<rparr>"
proof -
  have a: "run (core_init 3) [Send (1::nat), Send 2, Close] = Some \<lparr>cap = 3, q = [], closed_flag = True\<rparr>"
    by (simp add: core_init_def core_defs)
  have b: "run \<lparr>cap = 3, q = [] :: nat list, closed_flag = True\<rparr>
        [Send 4, SendResume 5, RecvImmed, Flush, ChannelClose, ChannelRecvImmed, Closed]
       = Some \<lparr>cap = 3, q = [], closed_flag = True\<rparr>"
    by (simp add: core_defs handle_defs)
  from closed_stays_empty [OF a _ b] a b show ?thesis
    by simp
qed

subsection \<open>C8: the capacity bound\<close>

text \<open>
  Claim C8. A core constructed with a capacity \<open>n > 0\<close> keeps that capacity and holds at
  most \<open>n\<close> items in every state it can reach; and whenever \<^verbatim>\<open>send\<close> pushes, at the call or
  at a wake-up, the queue held fewer than \<open>n\<close> items before the push.
\<close>

theorem capacity_bound:
  assumes "0 < n" and "run (core_init n) ops = Some c"
  shows "cap c = n \<and> length (q c) \<le> n
    \<and> (\<forall>t c'. core_send c t = Returns True c' \<or> core_send_resume c t = Returns True c'
          \<longrightarrow> length (q c) < n \<and> q c' = q c @ [t])"
proof -
  have k: "cap c = n"
    using run_keeps_cap [OF assms(2)] by (simp add: core_init_def)
  have "length (q c) \<le> cap c"
    using assms(2) by (rule run_bounded) (simp_all add: core_init_def assms(1))
  with k assms(1) show ?thesis
    by (auto simp: core_send_def core_send_resume_def send_ready_def split: if_splits)
qed

text \<open>
  Capacity 2: the third send waits, goes on after a receive, and a further send waits again.
\<close>

theorem capacity_bound_witness:
  "run (core_init 2) [Send (10::nat), Send 20, Send 30, RecvImmed, SendResume 30]
     = Some \<lparr>cap = 2, q = [20, 30], closed_flag = False\<rparr>
   \<and> core_send \<lparr>cap = 2, q = [20, 30 :: nat], closed_flag = False\<rparr> 40 = Blocks
   \<and> core_send \<lparr>cap = 2, q = [20 :: nat], closed_flag = False\<rparr> 30
       = Returns True \<lparr>cap = 2, q = [20, 30], closed_flag = False\<rparr>"
proof -
  have a: "run (core_init 2) [Send (10::nat), Send 20, Send 30, RecvImmed, SendResume 30]
     = Some \<lparr>cap = 2, q = [20, 30], closed_flag = False\<rparr>"
    by (simp add: core_init_def core_defs)
  have "(0::nat) < 2"
    by simp
  from capacity_bound [OF this a] a show ?thesis
    by (simp add: core_defs)
qed

subsection \<open>C1: the non-blocking receive\<close>

text \<open>
  Claim C1. \<^verbatim>\<open>_channel::recv_immed\<close> returns an empty optional on an empty queue, but
  \<^verbatim>\<open>channel::recv_immed\<close> calls \<^verbatim>\<open>value()\<close> on that optional: through the handle, a receive
  on an empty queue, open or closed, throws \<^verbatim>\<open>std::bad_optional_access\<close>. On a queue that
  is not empty it pops and returns the front item.
\<close>

theorem channel_recv_immed_empty_throws:
  "core_recv_immed (core_init 0 :: nat core) = Returns None (core_init 0)
   \<and> channel_recv_immed (core_init 0 :: nat core) = Throws bad_optional_access (core_init 0)
   \<and> channel_recv_immed \<lparr>cap = 0, q = [] :: nat list, closed_flag = True\<rparr>
       = Throws bad_optional_access \<lparr>cap = 0, q = [], closed_flag = True\<rparr>
   \<and> channel_recv_immed \<lparr>cap = 0, q = [5, 6 :: nat], closed_flag = False\<rparr>
       = Returns (Some 5) \<lparr>cap = 0, q = [6], closed_flag = False\<rparr>"
  by (simp add: core_init_def core_recv_immed_def channel_recv_immed_def optional_value_def)

subsection \<open>A closed core under other threads\<close>

text \<open>
  No history that goes on changes a closed, empty core. So each part of a handle's
  \<^verbatim>\<open>close\<close> that starts on such a core finds the same core, whatever other threads do
  between the parts.
\<close>

lemma closed_core_is_fixed:
  assumes "closed_flag c" and "q c = []" and "run c others = Some c'"
  shows "c' = c"
proof -
  have "closed_flag c'"
    using assms(3,1) by (rule run_keeps_closed)
  moreover have "closed_flag c' \<longrightarrow> q c' = []"
    using assms(3) by (rule run_closed_empty) (simp add: assms(2))
  moreover have "cap c' = cap c"
    using assms(3) by (rule run_keeps_cap)
  ultimately show ?thesis
    using assms(1,2) by simp
qed

subsection \<open>C2: destroying one of several handles\<close>

text \<open>
  The body of either handle destructor: nothing when \<^verbatim>\<open>closed()\<close> read a set flag; else
  \<^verbatim>\<open>close\<close>, which exits when another owner has set the flag since, and closes otherwise.
\<close>

lemma dtor_body_result:
  "channel_dtor_body c c1 =
     (if closed_flag c then Returns () c1
      else if closed_flag c1 then Exits ''Attempt to close a closed channel'' CLOSE_CLOSED_ERR
      else Returns () (c1\<lparr>closed_flag := True, q := []\<rparr>))"
  "send_channel_dtor_body c c1 =
     (if closed_flag c then Returns () c1
      else if closed_flag c1 then Exits ''Attempt to close a closed channel'' CLOSE_CLOSED_ERR
      else Returns () (c1\<lparr>closed_flag := True, q := []\<rparr>))"
  by (simp_all add: channel_dtor_body_def send_channel_dtor_body_def channel_closed_def
      send_channel_closed_def core_closed_def core_close_def check_closed_def)

text \<open>
  Claim C2, as amended. A handle, \<^verbatim>\<open>channel\<close> or \<^verbatim>\<open>send_channel\<close>, is destroyed while other
  handles share its core (the count of owners is above 1); other owners may run any history
  on the core between the destructor's \<^verbatim>\<open>closed()\<close> and its \<^verbatim>\<open>close()\<close>. The close in the
  destructor depends on the flag \<^verbatim>\<open>_closed\<close> alone, not on the handle being the last one:
  \<^item> if \<^verbatim>\<open>closed()\<close> read the flag set, the destructor leaves the core, which is closed, as
    it is;
  \<^item> if \<^verbatim>\<open>closed()\<close> read it clear and another owner has closed the core since, the
    destructor's \<^verbatim>\<open>close()\<close> exits with status \<^verbatim>\<open>CLOSE_CLOSED_ERR\<close>;
  \<^item> if the core is still open at \<^verbatim>\<open>close()\<close>, the destructor closes it and empties its queue.
  When the destructor returns, it has taken one owner off the count and the core is still
  allocated.
\<close>

theorem handle_dtor_closes_shared_core:
  assumes "cells s h = Some cb" and "run (obj cb) others = Some (obj cb1)"
    and "cells s1 h = Some cb1" and "1 < use_count cb1"
  shows "channel_dtor s s1 h =
      (if closed_flag (obj cb)
       then Returns () (s1\<lparr>cells := (cells s1)(h := Some (cb1\<lparr>use_count := use_count cb1 - 1\<rparr>))\<rparr>)
       else if closed_flag (obj cb1)
       then Exits ''Attempt to close a closed channel'' CLOSE_CLOSED_ERR
       else Returns () (s1\<lparr>cells := (cells s1)(h := Some (cb1\<lparr>obj :=
              (obj cb1)\<lparr>closed_flag := True, q := []\<rparr>, use_count := use_count cb1 - 1\<rparr>))\<rparr>))
    \<and> send_channel_dtor s s1 h = channel_dtor s s1 h
    \<and> (closed_flag (obj cb) \<longrightarrow> closed_flag (obj cb1))"
proof -
  have "closed_flag (obj cb) \<longrightarrow> closed_flag (obj cb1)"
    using assms(2) by (blast intro: run_keeps_closed)
  then show ?thesis
    using assms(1,3,4)
    by (simp add: channel_dtor_def send_channel_dtor_def on_core_def dtor_body_result
        shared_ptr_release_def)
qed


text \<open>
  Two owners of an open core holding one item. One of them is destroyed with no other thread
  running: the core is left closed and empty, with one owner. One of them is destroyed while
  the other closes the core between \<^verbatim>\<open>closed()\<close> and \<^verbatim>\<open>close()\<close>: exit with status 4.
\<close>

theorem handle_dtor_closes_shared_core_witness:
  "channel_dtor
     \<lparr>cells = (\<lambda>_. None)(0 := Some \<lparr>obj = \<lparr>cap = 2, q = [7 :: nat], closed_flag = False\<rparr>, use_count = 2\<rparr>),
      next_addr = 1\<rparr>
     \<lparr>cells = (\<lambda>_. None)(0 := Some \<lparr>obj = \<lparr>cap = 2, q = [7 :: nat], closed_flag = False\<rparr>, use_count = 2\<rparr>),
      next_addr = 1\<rparr> 0
   = Returns ()
     \<lparr>cells = (\<lambda>_. None)(0 := Some \<lparr>obj = \<lparr>cap = 2, q = [], closed_flag = True\<rparr>, use_count = 1\<rparr>),
      next_addr = 1\<rparr>
   \<and> run \<lparr>cap = 2, q = [7 :: nat], closed_flag = False\<rparr> [Close]
       = Some \<lparr>cap = 2, q = [], closed_flag = True\<rparr>
   \<and> channel_dtor
     \<lparr>cells = (\<lambda>_. None)(0 := Some \<lparr>obj = \<lparr>cap = 2, q = [7 :: nat], closed_flag = False\<rparr>, use_count = 2\<rparr>),
      next_addr = 1\<rparr>
     \<lparr>cells = (\<lambda>_. None)(0 := Some \<lparr>obj = \<lparr>cap = 2, q = [] :: nat list, closed_flag = True\<rparr>, use_count = 2\<rparr>),
      next_addr = 1\<rparr> 0
   = Exits ''Attempt to close a closed channel'' 4"
proof -
  let ?c = "\<lparr>cap = 2, q = [7 :: nat], closed_flag = False\<rparr>"
  let ?c1 = "\<lparr>cap = 2, q = [] :: nat list, closed_flag = True\<rparr>"
  let ?cb = "\<lparr>obj = ?c, use_count = 2\<rparr>"
  let ?cb1 = "\<lparr>obj = ?c1, use_count = 2\<rparr>"
  let ?s = "\<lparr>cells = (\<lambda>_. None)(0 := Some ?cb), next_addr = 1\<rparr>"
  let ?s1 = "\<lparr>cells = (\<lambda>_. None)(0 := Some ?cb1), next_addr = 1\<rparr>"
  have alone: "run (obj ?cb) [] = Some (obj ?cb)"
    by simp
  have sibling: "run (obj ?cb) [Close] = Some (obj ?cb1)"
    by (simp add: core_close_def check_closed_def)
  have a: "cells ?s 0 = Some ?cb" and b: "cells ?s1 0 = Some ?cb1"
    and k: "1 < use_count ?cb" and k1: "1 < use_count ?cb1"
    by simp_all
  from handle_dtor_closes_shared_core [OF a alone a k]
    handle_dtor_closes_shared_core [OF a sibling b k1] sibling
  show ?thesis
    by (simp add: CLOSE_CLOSED_ERR_def)
qed

text \<open>
  Claim C2, as stated, fails: a \<^verbatim>\<open>channel\<close> of capacity 2 is constructed and sent the item
  7, a \<^verbatim>\<open>send_channel\<close> is constructed from it, and the \<^verbatim>\<open>send_channel\<close> is destroyed, with
  no other thread running. Before the destruction the core is open, holds the item and has
  two owners; after it the \<^verbatim>\<open>channel\<close> still owns the core, which is closed and empty.
\<close>

theorem dtor_of_one_handle_closes_shared_core:
  "returned
     (and_then (channel_ctor (empty_store :: nat store) 2) (\<lambda>a s.
      and_then (on_core (\<lambda>c. channel_send c 7) s a) (\<lambda>_ s.
      and_then (send_channel_from_channel s a) (\<lambda>b s2.
      and_then (send_channel_dtor s2 s2 b) (\<lambda>_ s3.
        Returns (cells s2 a, cells s3 a) s3)))))
   = Some (Some \<lparr>obj = \<lparr>cap = 2, q = [7], closed_flag = False\<rparr>, use_count = 2\<rparr>,
           Some \<lparr>obj = \<lparr>cap = 2, q = [], closed_flag = True\<rparr>, use_count = 1\<rparr>)"
  by (simp add: channel_ctor_def make_shared_def empty_store_def on_core_def channel_send_def
      core_send_def core_send_resume_def send_ready_def core_init_def
      send_channel_from_channel_def shared_ptr_copy_def send_channel_dtor_def
      send_channel_dtor_body_def send_channel_closed_def core_closed_def core_close_def
      check_closed_def shared_ptr_release_def)

text \<open>
  The same race as a history of a fresh core: two destructors read \<^verbatim>\<open>closed()\<close>, the first
  closes, and the \<^verbatim>\<open>close()\<close> of the second exits.
\<close>

lemma two_destructors_race:
  "run (core_init 2 :: nat core) [Closed, Closed, Close] = Some \<lparr>cap = 2, q = [], closed_flag = True\<rparr>"
  "run (core_init 2 :: nat core) [Closed, Closed, Close, Close] = None"
  "channel_dtor_body (core_init 2 :: nat core) \<lparr>cap = 2, q = [], closed_flag = True\<rparr>
     = Exits ''Attempt to close a closed channel'' 4"
  by (simp_all add: core_init_def core_closed_def core_close_def check_closed_def
      channel_dtor_body_def channel_closed_def CLOSE_CLOSED_ERR_def)

end
